theory Spec2Isabelle
  imports Complex_Main "HOL-Library.Sublist" "HOL-Library.Log_Nat"
begin

section \<open>Signs and the jutsu catalog (jutsu-detector.js, lines 13-55)\<close>

text \<open>
  The twelve keys of \<^verbatim>\<open>signRules\<close> in hand-signs.js, in the order of the object
  literal. The classifier produces no other sign name, so the matcher's \<^verbatim>\<open>sign\<close>
  strings are modelled by this type, and JavaScript's \<^verbatim>\<open>null\<close> by \<open>None\<close>.
\<close>

datatype sign = Tiger | Snake | Ram | Monkey | Boar | Horse | Bird | Dog | Dragon | Ox | Hare | Rat

text \<open>
  A catalog entry. The fields \<^verbatim>\<open>japanese\<close>, \<^verbatim>\<open>color\<close> and
  \<^verbatim>\<open>description\<close> are display texts that no function of the detector reads; they
  are left out. \<^verbatim>\<open>id\<close> is called \<open>jutsu_id\<close> here.
\<close>

record jutsu =
  jutsu_id :: string
  name :: string
  element :: string
  signs :: "sign list"
  effect :: string

definition fireball :: jutsu where
  "fireball = \<lparr>jutsu_id = ''fireball'', name = ''Fireball Jutsu'', element = ''Fire'',
     signs = [Snake, Ram, Monkey, Boar, Horse, Tiger], effect = ''fireball''\<rparr>"

definition chidori :: jutsu where
  "chidori = \<lparr>jutsu_id = ''chidori'', name = ''Chidori'', element = ''Lightning'',
     signs = [Ox, Hare, Monkey], effect = ''chidori''\<rparr>"

definition shadowclone :: jutsu where
  "shadowclone = \<lparr>jutsu_id = ''shadowclone'', name = ''Shadow Clone Jutsu'', element = ''None'',
     signs = [Ram, Snake, Tiger], effect = ''shadowclone''\<rparr>"

definition waterdragon :: jutsu where
  "waterdragon = \<lparr>jutsu_id = ''waterdragon'', name = ''Water Dragon Jutsu'', element = ''Water'',
     signs = [Ox, Monkey, Hare, Rat, Boar, Bird], effect = ''waterdragon''\<rparr>"

definition jutsus :: "jutsu list" where
  "jutsus = [fireball, chidori, shadowclone, waterdragon]"

section \<open>The sequence matcher (jutsu-detector.js, lines 57-177)\<close>

text \<open>
  What \<^verbatim>\<open>processSign\<close> reads of its argument: the two fields \<^verbatim>\<open>sign\<close> and
  \<^verbatim>\<open>confidence\<close>. The record is extensible, so the classifier's full result
  (defined below as an extension) is accepted as well.
\<close>

record detection =
  sign :: "sign option"
  confidence :: real

text \<open>An element of \<^verbatim>\<open>matchingJutsus\<close>: the catalog entry with its progress fields.\<close>

record jutsuMatch =
  matched :: jutsu
  progress :: nat
  total :: nat
  percentage :: real

text \<open>
  The calls made to the three callbacks, in the order they are made. The arguments are
  logged by value at the time of the call.
\<close>

datatype event =
    SequenceUpdate "sign list" "jutsuMatch list"
  | JutsuComplete jutsu
  | SequenceReset string

text \<open>
  The module state. The three callback variables are modelled by a flag (a handler is
  installed or the variable is \<^verbatim>\<open>null\<close>) together with the log \<open>events\<close> of
  the calls made. \<open>timers\<close> is the runtime's queue of callbacks scheduled by
  \<^verbatim>\<open>setTimeout\<close> at line 138 and not yet run, each with its due time.
\<close>

record matcher =
  currentSequence :: "sign list"
  lastSignTime :: int
  lastDetectedSign :: "sign option"
  signHoldCount :: nat
  matchingJutsus :: "jutsuMatch list"
  onJutsuComplete :: bool
  onSequenceUpdate :: bool
  onSequenceReset :: bool
  events :: "event list"
  timers :: "int list"

definition initial :: matcher where
  "initial = \<lparr>currentSequence = [], lastSignTime = 0, lastDetectedSign = None,
     signHoldCount = 0, matchingJutsus = [], onJutsuComplete = False,
     onSequenceUpdate = False, onSequenceReset = False, events = [], timers = []\<rparr>"

definition SEQUENCE_TIMEOUT_MS :: int where
  "SEQUENCE_TIMEOUT_MS = 5000"

definition SIGN_HOLD_FRAMES :: nat where
  "SIGN_HOLD_FRAMES = 8"

definition MIN_CONFIDENCE :: real where
  "MIN_CONFIDENCE = 1 / 2"

text \<open>\<^verbatim>\<open>setCallbacks\<close> (lines 196-200): a handler that is given replaces the variable.\<close>

definition setCallbacks :: "bool \<Rightarrow> bool \<Rightarrow> bool \<Rightarrow> matcher \<Rightarrow> matcher" where
  "setCallbacks onComplete onUpdate onReset s =
     s\<lparr>onJutsuComplete := (onComplete \<or> onJutsuComplete s),
       onSequenceUpdate := (onUpdate \<or> onSequenceUpdate s),
       onSequenceReset := (onReset \<or> onSequenceReset s)\<rparr>"

text \<open>The filter predicate of \<^verbatim>\<open>findMatchingJutsus\<close> (lines 148-152).\<close>

definition prefixMatches :: "sign list \<Rightarrow> jutsu \<Rightarrow> bool" where
  "prefixMatches cs j =
     (if length cs > length (signs j) then False
      else list_all (\<lambda>i. cs ! i = signs j ! i) [0..<length cs])"

definition findMatchingJutsus :: "sign list \<Rightarrow> jutsuMatch list" where
  "findMatchingJutsus cs =
     map (\<lambda>j. \<lparr>matched = j, progress = length cs, total = length (signs j),
               percentage = (real (length cs) / real (length (signs j))) * 100\<rparr>)
         (filter (prefixMatches cs) jutsus)"

text \<open>The predicate of \<^verbatim>\<open>findCompletedJutsu\<close> (lines 163-164).\<close>

definition isCompleted :: "sign list \<Rightarrow> jutsu \<Rightarrow> bool" where
  "isCompleted cs j =
     (if length cs \<noteq> length (signs j) then False
      else list_all (\<lambda>i. signs j ! i = cs ! i) [0..<length (signs j)])"

definition findCompletedJutsu :: "sign list \<Rightarrow> jutsu option" where
  "findCompletedJutsu cs = find (isCompleted cs) jutsus"

text \<open>\<^verbatim>\<open>resetSequence\<close> (lines 168-177).\<close>

definition resetSequence :: "string \<Rightarrow> matcher \<Rightarrow> matcher" where
  "resetSequence reason s =
     (let hadSigns = (length (currentSequence s) > 0);
          s1 = s\<lparr>currentSequence := [], matchingJutsus := [],
                 lastDetectedSign := None, signHoldCount := 0\<rparr>
      in if hadSigns \<and> onSequenceReset s1
         then s1\<lparr>events := events s1 @ [SequenceReset reason]\<rparr>
         else s1)"

text \<open>
  The body of the callback given to \<^verbatim>\<open>setTimeout\<close> (lines 139-141). It reads the
  module variable \<^verbatim>\<open>matchingJutsus\<close> when it runs, so it takes the state of that
  moment.
\<close>

definition noMatchCheck :: "matcher \<Rightarrow> matcher" where
  "noMatchCheck s =
     (if length (matchingJutsus s) = 0 then resetSequence ''no-match'' s else s)"

text \<open>
  The runtime running the oldest pending callback. All callbacks are scheduled with the
  same delay, so they run in the order they were scheduled.
\<close>

definition fireTimer :: "matcher \<Rightarrow> matcher" where
  "fireTimer s =
     (case timers s of
        [] \<Rightarrow> s
      | due # rest \<Rightarrow> noMatchCheck (s\<lparr>timers := rest\<rparr>))"

text \<open>
  The second half of \<^verbatim>\<open>processSign\<close> (lines 113-143), reached when the sign is
  registered: push, match, notify, complete or schedule the deferred check.
  \<open>now\<close> is the value \<^verbatim>\<open>Date.now()\<close> returned at line 78.
\<close>

definition registerSign :: "int \<Rightarrow> sign \<Rightarrow> matcher \<Rightarrow> matcher" where
  "registerSign now sg s =
     (let s1 = s\<lparr>currentSequence := currentSequence s @ [sg], lastSignTime := now\<rparr>;
          s2 = s1\<lparr>matchingJutsus := findMatchingJutsus (currentSequence s1)\<rparr>;
          s3 = (if onSequenceUpdate s2
                then s2\<lparr>events := events s2 @
                        [SequenceUpdate (currentSequence s2) (matchingJutsus s2)]\<rparr>
                else s2)
      in case findCompletedJutsu (currentSequence s3) of
           Some completedJutsu \<Rightarrow>
             resetSequence ''completed''
               (if onJutsuComplete s3
                then s3\<lparr>events := events s3 @ [JutsuComplete completedJutsu]\<rparr>
                else s3)
         | None \<Rightarrow>
             (if length (matchingJutsus s3) = 0 \<and> length (currentSequence s3) > 0
              then s3\<lparr>timers := timers s3 @ [now + 1000]\<rparr>
              else s3))"

text \<open>The timeout check (lines 82-85): its condition, and the statement.\<close>

definition timedOut :: "int \<Rightarrow> matcher \<Rightarrow> bool" where
  "timedOut now s \<longleftrightarrow>
     length (currentSequence s) > 0 \<and> now - lastSignTime s > SEQUENCE_TIMEOUT_MS"

definition checkTimeout :: "int \<Rightarrow> matcher \<Rightarrow> matcher" where
  "checkTimeout now s = (if timedOut now s then resetSequence ''timeout'' s else s)"

text \<open>
  \<^verbatim>\<open>processSign\<close> (lines 75-144). The argument is \<open>None\<close> for a falsy
  \<^verbatim>\<open>classification\<close> (line 76).
\<close>

definition processSign :: "int \<Rightarrow> 'a detection_scheme option \<Rightarrow> matcher \<Rightarrow> matcher" where
  "processSign now classification s =
     (case classification of
        None \<Rightarrow> s
      | Some c \<Rightarrow>
          (let s1 = checkTimeout now s in
           if sign c = None \<or> confidence c < MIN_CONFIDENCE
           then (if lastDetectedSign s1 \<noteq> None
                 then s1\<lparr>signHoldCount := 0, lastDetectedSign := None\<rparr>
                 else s1)
           else
             (let sg = the (sign c);
                  s2 = (if Some sg = lastDetectedSign s1
                        then s1\<lparr>signHoldCount := signHoldCount s1 + 1\<rparr>
                        else s1\<lparr>lastDetectedSign := Some sg, signHoldCount := 1\<rparr>)
              in if signHoldCount s2 \<noteq> SIGN_HOLD_FRAMES then s2
                 else if length (currentSequence s2) > 0 \<and> last (currentSequence s2) = sg
                 then s2
                 else registerSign now sg s2)))"

text \<open>
  The frame loop of app.js (line 206) calls \<^verbatim>\<open>processSign\<close> once per frame; a run
  of frames is a list of the clock values and classification results.
\<close>

fun feed :: "(int \<times> 'a detection_scheme option) list \<Rightarrow> matcher \<Rightarrow> matcher" where
  "feed [] s = s"
| "feed ((now, c) # rest) s = feed rest (processSign now c s)"

text \<open>
  A frame that passes the test of line 88: a classification with the sign \<open>sg\<close> and a
  confidence that is not below \<^verbatim>\<open>MIN_CONFIDENCE\<close>.
\<close>

definition qualifying :: "sign \<Rightarrow> 'a detection_scheme option \<Rightarrow> bool" where
  "qualifying sg classification =
     (case classification of
        None \<Rightarrow> False
      | Some c \<Rightarrow> sign c = Some sg \<and> \<not> confidence c < MIN_CONFIDENCE)"

text \<open>
  The states the page can be in: the module's initial state, changed by the calls of its
  public functions and by the runtime running a scheduled callback.
\<close>

inductive reachable :: "matcher \<Rightarrow> bool" where
  reach_initial: "reachable initial"
| reach_callbacks: "reachable s \<Longrightarrow> reachable (setCallbacks a b c s)"
| reach_sample: "reachable s \<Longrightarrow> reachable (processSign now (cl :: detection option) s)"
| reach_reset: "reachable s \<Longrightarrow> reachable (resetSequence reason s)"
| reach_timer: "reachable s \<Longrightarrow> reachable (fireTimer s)"

text \<open>\<open>cs\<close> is a strict prefix of the required signs of some catalog entry.\<close>

definition strictCatalogPrefix :: "sign list \<Rightarrow> bool" where
  "strictCatalogPrefix cs \<longleftrightarrow> (\<exists>j \<in> set jutsus. strict_prefix cs (signs j))"

text \<open>The state of the page after app.js has installed its three handlers (line 540).\<close>

definition started :: matcher where
  "started = setCallbacks True True True initial"

text \<open>A classification showing \<open>sg\<close>, and one showing no sign.\<close>

definition frame :: "sign \<Rightarrow> real \<Rightarrow> detection" where
  "frame sg conf = \<lparr>sign = Some sg, confidence = conf\<rparr>"

definition noSign :: detection where
  "noSign = \<lparr>sign = None, confidence = 0\<rparr>"

text \<open>\<open>n\<close> frames showing one sign, 33 ms apart, starting at \<open>t0\<close>.\<close>

definition held :: "sign \<Rightarrow> real \<Rightarrow> int \<Rightarrow> nat \<Rightarrow> (int \<times> detection option) list" where
  "held sg conf t0 n = map (\<lambda>k. (t0 + 33 * int k, Some (frame sg conf))) [0..<n]"



text \<open>Tiger held for seven and for eight frames from the start.\<close>

definition tigerSeven :: matcher where
  "tigerSeven = feed (held Tiger (9 / 10) 0 7) started"

definition tigerEight :: matcher where
  "tigerEight = feed (held Tiger (9 / 10) 0 8) started"

text \<open>After Tiger was registered: a manual reset, then Ox registered.\<close>

definition oxAfterTiger :: matcher where
  "oxAfterTiger = feed (held Ox (9 / 10) 300 8) (resetSequence ''manual'' tigerEight)"

text \<open>Ram registered; Ox held for four frames.\<close>

definition ramRecorded :: matcher where
  "ramRecorded = feed (held Ram (9 / 10) 0 8) started"

definition oxFour :: matcher where
  "oxFour = feed (held Ox (9 / 10) 0 4) started"

definition oxRecorded :: matcher where
  "oxRecorded = feed (held Ox (9 / 10) 0 8) started"

text \<open>The facts about a state that the public functions of the matcher maintain.\<close>

definition consistent :: "matcher \<Rightarrow> bool" where
  "consistent s \<longleftrightarrow>
     (currentSequence s = [] \<and> matchingJutsus s = []) \<or>
     (currentSequence s \<noteq> [] \<and> matchingJutsus s = findMatchingJutsus (currentSequence s)
        \<and> findCompletedJutsu (currentSequence s) = None
        \<and> (matchingJutsus s = [] \<longrightarrow> timers s \<noteq> []))"

section \<open>Numbers of the classifier (hand-signs.js)\<close>

text \<open>
  JavaScript numbers are IEEE-754 binary64 values. The model has two layers.

  \<^item> Geometry (distances, curl ratios, angles) is computed over the reals: it feeds
    threshold tests only, and the one place where binary64 differs in kind from the
    reals, a division by zero, is modelled by \<open>jsDivide\<close> below.
  \<^item> Scores are sums of decimal literals that the classifier compares with each other
    and with its threshold, so their rounding is modelled exactly: every literal and
    every \<^verbatim>\<open>+=\<close> / \<^verbatim>\<open>-=\<close> is rounded to the nearest binary64 value, ties to
    even, by \<open>double\<close>. (For instance \<^verbatim>\<open>0.2+0.2+0.2+0.15+0.15\<close> evaluates to
    \<^verbatim>\<open>0.9000000000000001\<close> in JavaScript and \<^verbatim>\<open>0.25+0.25+0.15+0.15+0.1\<close> to
    \<^verbatim>\<open>0.9\<close>.) A score is a sum of at most ten literals between 0.05 and 0.5,
    far from overflow and from the subnormal range, which \<open>double\<close> does not model.
\<close>

text \<open>\<open>binade x\<close> is the integer \<open>e\<close> with \<open>2\<^sup>e \<le> x < 2\<^sup>e\<^sup>+\<^sup>1\<close>, for \<open>x > 0\<close>.\<close>

definition binade :: "real \<Rightarrow> int" where
  "binade x = (if 1 \<le> x then bitlen \<lfloor>x\<rfloor> - 1 else - bitlen (\<lceil>1 / x\<rceil> - 1))"

definition nearestEven :: "real \<Rightarrow> int" where
  "nearestEven y =
     (let f = \<lfloor>y\<rfloor>; d = y - of_int f
      in if d < 1 / 2 then f
         else if 1 / 2 < d then f + 1
         else if even f then f else f + 1)"

definition double :: "real \<Rightarrow> real" where
  "double x =
     (if x = 0 then 0
      else (let ulp = 2 powi (binade \<bar>x\<bar> - 52)
            in of_int (nearestEven (x / ulp)) * ulp))"

text \<open>
  \<^verbatim>\<open>let score = 0; if (c1) score += w1; if (c2) score -= w2; ...\<close>:
  the steps of a rule body in source order, a \<^verbatim>\<open>-=\<close> step entered with a negative
  weight (binary64 subtraction is addition of the negated operand).
\<close>

definition accumulate :: "(bool \<times> real) list \<Rightarrow> real" where
  "accumulate steps =
     foldl (\<lambda>score (cond, w). if cond then double (score + double w) else score) 0 steps"

text \<open>
  The value of \<^verbatim>\<open>a / b\<close> for finite \<open>a\<close> and \<open>b\<close> (\<open>b\<close> is never \<^verbatim>\<open>-0\<close>
  here: it is the result of \<^verbatim>\<open>Math.sqrt\<close>).
\<close>

datatype number = Finite real | PosInfinity | NegInfinity | NaN

definition jsDivide :: "real \<Rightarrow> real \<Rightarrow> number" where
  "jsDivide a b =
     (if b \<noteq> 0 then Finite (a / b)
      else if a = 0 then NaN
      else if 0 < a then PosInfinity else NegInfinity)"

text \<open>\<^verbatim>\<open>n < c\<close> and \<^verbatim>\<open>n > c\<close> for a finite \<open>c\<close>; every comparison with NaN is false.\<close>

fun lessThan_js :: "number \<Rightarrow> real \<Rightarrow> bool" where
  "lessThan_js (Finite a) c = (a < c)"
| "lessThan_js PosInfinity c = False"
| "lessThan_js NegInfinity c = True"
| "lessThan_js NaN c = False"

fun greaterThan_js :: "number \<Rightarrow> real \<Rightarrow> bool" where
  "greaterThan_js (Finite a) c = (a > c)"
| "greaterThan_js PosInfinity c = True"
| "greaterThan_js NegInfinity c = False"
| "greaterThan_js NaN c = False"

fun isFinite :: "number \<Rightarrow> bool" where
  "isFinite (Finite a) = True"
| "isFinite PosInfinity = False"
| "isFinite NegInfinity = False"
| "isFinite NaN = False"

section \<open>Geometry helpers (hand-signs.js, lines 21-47)\<close>

text \<open>
  A point \<^verbatim>\<open>{x, y, z}\<close> with finite coordinates; \<open>pz\<close> is \<open>None\<close> when the
  \<^verbatim>\<open>z\<close> property is absent. \<open>zOr0\<close> is \<^verbatim>\<open>(a.z || 0)\<close>.
\<close>

datatype landmark = Landmark (px: real) (py: real) (pz: "real option")

definition zOr0 :: "landmark \<Rightarrow> real" where
  "zOr0 a = (case pz a of None \<Rightarrow> 0 | Some v \<Rightarrow> v)"

definition dist_js :: "landmark \<Rightarrow> landmark \<Rightarrow> real" where
  "dist_js a b =
     (let dx = px a - px b; dy = py a - py b; dz = zOr0 a - zOr0 b
      in sqrt (dx * dx + dy * dy + dz * dz))"

definition vec :: "landmark \<Rightarrow> landmark \<Rightarrow> landmark" where
  "vec a b = Landmark (px b - px a) (py b - py a) (Some (zOr0 b - zOr0 a))"

definition dot :: "landmark \<Rightarrow> landmark \<Rightarrow> real" where
  "dot u v = px u * px v + py u * py v + zOr0 u * zOr0 v"

definition mag :: "landmark \<Rightarrow> real" where
  "mag v = sqrt (px v * px v + py v * py v + zOr0 v * zOr0 v)"

definition angleBetween :: "landmark \<Rightarrow> landmark \<Rightarrow> landmark \<Rightarrow> real" where
  "angleBetween a b c =
     (let v1 = vec b a; v2 = vec b c;
          cosA = dot v1 v2 / (mag v1 * mag v2 + 1 / 10 ^ 9)
      in arccos (max (- 1) (min 1 cosA)) * (180 / pi))"

definition cross2D :: "landmark \<Rightarrow> landmark \<Rightarrow> real" where
  "cross2D u v = px u * py v - py u * px v"

section \<open>Feature extraction (hand-signs.js, lines 55-175)\<close>

text \<open>
  \<open>lms\<close> is the landmark array; \<open>lms ! i\<close> is read only for \<open>i \<le> 20\<close>, and
  \<open>classify\<close> calls \<open>getHandFeatures\<close> only on arrays of at least 21 points.
\<close>

definition getFingerCurl :: "landmark list \<Rightarrow> nat \<Rightarrow> nat \<Rightarrow> nat \<Rightarrow> nat \<Rightarrow> real" where
  "getFingerCurl lms base pip dip tip =
     (let fullLen = dist_js (lms ! base) (lms ! pip) + dist_js (lms ! pip) (lms ! dip)
                    + dist_js (lms ! dip) (lms ! tip);
          directLen = dist_js (lms ! base) (lms ! tip);
          ratio = directLen / (fullLen + 1 / 10 ^ 9)
      in 1 - max 0 (min 1 ((ratio - 1 / 2) / (1 / 2))))"

definition getThumbCurl :: "landmark list \<Rightarrow> real" where
  "getThumbCurl lms =
     (let fullLen = dist_js (lms ! 1) (lms ! 2) + dist_js (lms ! 2) (lms ! 3)
                    + dist_js (lms ! 3) (lms ! 4);
          directLen = dist_js (lms ! 1) (lms ! 4);
          ratio = directLen / (fullLen + 1 / 10 ^ 9)
      in 1 - max 0 (min 1 ((ratio - 1 / 2) / (1 / 2))))"

definition getFingerAngle :: "landmark list \<Rightarrow> nat \<Rightarrow> nat \<Rightarrow> nat \<Rightarrow> real" where
  "getFingerAngle lms mcp pip dip = angleBetween (lms ! mcp) (lms ! pip) (lms ! dip)"

definition getPalmSize :: "landmark list \<Rightarrow> real" where
  "getPalmSize lms = dist_js (lms ! 0) (lms ! 9)"

record features =
  palmSize :: real
  thumbCurl :: real
  indexCurl :: real
  middleCurl :: real
  ringCurl :: real
  pinkyCurl :: real
  thumbExtended :: bool
  indexExtended :: bool
  middleExtended :: bool
  ringExtended :: bool
  pinkyExtended :: bool
  thumbCurled :: bool
  indexCurled :: bool
  middleCurled :: bool
  ringCurled :: bool
  pinkyCurled :: bool
  indexMiddleSpread :: number
  middleRingSpread :: number
  ringPinkySpread :: number
  indexRingSpread :: number
  thumbToPalm :: number
  thumbToIndex :: number
  thumbToMiddle :: number
  thumbToPinky :: number
  indexToWrist :: number
  middleToWrist :: number
  ringToWrist :: number
  pinkyToWrist :: number
  indexMiddleTouching :: bool
  indexMiddleUp :: bool
  indexAngle :: real
  middleAngle :: real
  ringAngle :: real
  pinkyAngle :: real
  palmFacingCamera :: bool
  thumbCrossingPalm :: bool
  indexMiddleOnly :: bool
  allFingersCurled :: bool
  allFingersExtended :: bool
  hornsShape :: bool
  lm :: "landmark list"

definition getHandFeatures :: "landmark list \<Rightarrow> features" where
  "getHandFeatures lms =
     (let palm = getPalmSize lms;
          thumbC = getThumbCurl lms;
          indexC = getFingerCurl lms 5 6 7 8;
          middleC = getFingerCurl lms 9 10 11 12;
          ringC = getFingerCurl lms 13 14 15 16;
          pinkyC = getFingerCurl lms 17 18 19 20;
          thumbExt = (thumbC < 0.4);
          indexExt = (indexC < 0.4);
          middleExt = (middleC < 0.4);
          ringExt = (ringC < 0.4);
          pinkyExt = (pinkyC < 0.4);
          indexCrl = (indexC > 0.55);
          middleCrl = (middleC > 0.55);
          ringCrl = (ringC > 0.55);
          pinkyCrl = (pinkyC > 0.55);
          thumbCrl = (thumbC > 0.55)
      in \<lparr>palmSize = palm,
          thumbCurl = thumbC, indexCurl = indexC, middleCurl = middleC,
          ringCurl = ringC, pinkyCurl = pinkyC,
          thumbExtended = thumbExt, indexExtended = indexExt, middleExtended = middleExt,
          ringExtended = ringExt, pinkyExtended = pinkyExt,
          thumbCurled = thumbCrl, indexCurled = indexCrl, middleCurled = middleCrl,
          ringCurled = ringCrl, pinkyCurled = pinkyCrl,
          indexMiddleSpread = jsDivide (dist_js (lms ! 8) (lms ! 12)) palm,
          middleRingSpread = jsDivide (dist_js (lms ! 12) (lms ! 16)) palm,
          ringPinkySpread = jsDivide (dist_js (lms ! 16) (lms ! 20)) palm,
          indexRingSpread = jsDivide (dist_js (lms ! 8) (lms ! 16)) palm,
          thumbToPalm = jsDivide (dist_js (lms ! 4) (lms ! 9)) palm,
          thumbToIndex = jsDivide (dist_js (lms ! 4) (lms ! 8)) palm,
          thumbToMiddle = jsDivide (dist_js (lms ! 4) (lms ! 12)) palm,
          thumbToPinky = jsDivide (dist_js (lms ! 4) (lms ! 20)) palm,
          indexToWrist = jsDivide (dist_js (lms ! 8) (lms ! 0)) palm,
          middleToWrist = jsDivide (dist_js (lms ! 12) (lms ! 0)) palm,
          ringToWrist = jsDivide (dist_js (lms ! 16) (lms ! 0)) palm,
          pinkyToWrist = jsDivide (dist_js (lms ! 20) (lms ! 0)) palm,
          indexMiddleTouching =
            lessThan_js (jsDivide (dist_js (lms ! 8) (lms ! 12)) palm) 0.25,
          indexMiddleUp = (py (lms ! 8) < py (lms ! 6) \<and> py (lms ! 12) < py (lms ! 10)),
          indexAngle = getFingerAngle lms 5 6 7,
          middleAngle = getFingerAngle lms 9 10 11,
          ringAngle = getFingerAngle lms 13 14 15,
          pinkyAngle = getFingerAngle lms 17 18 19,
          palmFacingCamera =
            (cross2D (vec (lms ! 0) (lms ! 5)) (vec (lms ! 0) (lms ! 17)) > 0),
          thumbCrossingPalm =
            ((px (lms ! 4) > px (lms ! 9)) = (px (lms ! 0) < px (lms ! 9))),
          indexMiddleOnly = (indexExt \<and> middleExt \<and> ringCrl \<and> pinkyCrl),
          allFingersCurled = (indexCrl \<and> middleCrl \<and> ringCrl \<and> pinkyCrl),
          allFingersExtended = (indexExt \<and> middleExt \<and> ringExt \<and> pinkyExt),
          hornsShape = (indexExt \<and> pinkyExt \<and> middleCrl \<and> ringCrl),
          lm = lms\<rparr>)"

section \<open>Sign rules (hand-signs.js, lines 183-391)\<close>

text \<open>
  What a rule returns: \<^verbatim>\<open>{ score, rules }\<close>.
\<close>

record ruleResult =
  score :: real
  rules :: "string list"

text \<open>
  \<^verbatim>\<open>signRules\<close>: one equation per key, each body the list of its
  \<^verbatim>\<open>if (...) score += w\<close> and \<^verbatim>\<open>if (...) score -= w\<close> statements in source order,
  closed by \<^verbatim>\<open>Math.max(0, score)\<close>.
\<close>

fun signRules :: "sign \<Rightarrow> features \<Rightarrow> ruleResult" where
  "signRules Tiger f =
     \<lparr>score = max 0 (accumulate
        [(indexExtended f, 0.25), (middleExtended f, 0.25),
         (ringCurled f, 0.15), (pinkyCurled f, 0.15),
         (indexMiddleTouching f, 0.1), (indexMiddleUp f, 0.1),
         (ringExtended f, - 0.3), (pinkyExtended f, - 0.3)]),
      rules = [''idx+mid ext, ring+pink curl, tips close'']\<rparr>"
| "signRules Snake f =
     \<lparr>score = max 0 (accumulate
        [(allFingersCurled f, 0.4), (thumbCurled f, 0.2),
         (lessThan_js (thumbToPalm f) 0.8, 0.2),
         (pinkyCurled f, 0.1), (indexCurl f > 0.6, 0.1),
         (indexExtended f, - 0.3), (middleExtended f, - 0.2), (pinkyExtended f, - 0.3)]),
      rules = [''tight fist, thumb wrap'']\<rparr>"
| "signRules Ram f =
     \<lparr>score = max 0 (accumulate
        [(indexExtended f, 0.2), (middleExtended f, 0.2),
         (ringCurled f, 0.15), (pinkyCurled f, 0.15),
         (greaterThan_js (indexMiddleSpread f) 0.35, 0.2),
         (\<not> indexMiddleTouching f, 0.1),
         (indexMiddleTouching f, - 0.3),
         (ringExtended f, - 0.3), (pinkyExtended f, - 0.3)]),
      rules = [''idx+mid ext spread, ring+pink curl'']\<rparr>"
| "signRules Monkey f =
     \<lparr>score = max 0 (accumulate
        [(allFingersExtended f, 0.4),
         (thumbCurled f \<or> thumbCurl f > 0.3, 0.2),
         (lessThan_js (thumbToPalm f) 0.7, 0.15),
         (lessThan_js (indexMiddleSpread f) 0.4, 0.1),
         (lessThan_js (middleRingSpread f) 0.4, 0.1),
         (thumbExtended f, - 0.3), (indexCurled f, - 0.3), (middleCurled f, - 0.3)]),
      rules = [''all ext, thumb tuck, flat palm'']\<rparr>"
| "signRules Boar f =
     \<lparr>score = max 0 (accumulate
        [(allFingersExtended f, 0.3), (thumbExtended f, 0.25),
         (greaterThan_js (indexMiddleSpread f) 0.3, 0.1),
         (greaterThan_js (middleRingSpread f) 0.2, 0.1),
         (greaterThan_js (ringPinkySpread f) 0.2, 0.1),
         (greaterThan_js (thumbToPalm f) 0.9, 0.15),
         (indexCurled f, - 0.3), (middleCurled f, - 0.3), (thumbCurled f, - 0.3)]),
      rules = [''all ext + thumb ext, spread'']\<rparr>"
| "signRules Horse f =
     \<lparr>score = max 0 (accumulate
        [(indexExtended f, 0.3), (middleCurled f, 0.2),
         (ringCurled f, 0.15), (pinkyCurled f, 0.15),
         (thumbExtended f, 0.1),
         (greaterThan_js (thumbToIndex f) 0.6, 0.1),
         (middleExtended f, - 0.35), (ringExtended f, - 0.2), (pinkyExtended f, - 0.2)]),
      rules = [''index only ext, thumb out, rest curl'']\<rparr>"
| "signRules Bird f =
     \<lparr>score = max 0 (accumulate
        [(pinkyExtended f, 0.25), (ringExtended f, 0.2),
         (indexCurled f, 0.2), (middleCurled f, 0.2),
         (lessThan_js (ringPinkySpread f) 0.35, 0.1),
         (indexExtended f, - 0.35), (middleExtended f, - 0.35), (pinkyCurled f, - 0.3)]),
      rules = [''ring+pinky ext, idx+mid curl'']\<rparr>"
| "signRules Dog f =
     \<lparr>score = max 0 (accumulate
        [(allFingersExtended f, 0.3), (thumbExtended f, 0.1),
         (lessThan_js (indexMiddleSpread f) 0.25, 0.15),
         (lessThan_js (middleRingSpread f) 0.2, 0.15),
         (lessThan_js (ringPinkySpread f) 0.2, 0.15),
         (lessThan_js (thumbToPalm f) 0.9, 0.15),
         (greaterThan_js (indexMiddleSpread f) 0.4, - 0.3), (indexCurled f, - 0.3)]),
      rules = [''all ext, fingers together, palm flat'']\<rparr>"
| "signRules Dragon f =
     \<lparr>score = max 0 (accumulate
        [(indexExtended f, 0.2),
         (middleCurl f > 0.25 \<and> middleCurl f < 0.65, 0.2),
         (ringCurl f > 0.25 \<and> ringCurl f < 0.65, 0.2),
         (pinkyCurled f, 0.15), (thumbExtended f, 0.15),
         (greaterThan_js (indexMiddleSpread f) 0.3, 0.1),
         (middleExtended f \<and> ringExtended f, - 0.2), (allFingersCurled f, - 0.3)]),
      rules = [''idx ext, mid+ring partial, pinky curl, thumb out'']\<rparr>"
| "signRules Ox f =
     \<lparr>score = max 0 (accumulate
        [(hornsShape f, 0.5), (indexExtended f, 0.15), (pinkyExtended f, 0.15),
         (middleCurled f, 0.1), (ringCurled f, 0.1),
         (middleExtended f, - 0.35), (ringExtended f, - 0.35), (pinkyCurled f, - 0.3)]),
      rules = [''idx+pinky ext (horns), mid+ring curl'']\<rparr>"
| "signRules Hare f =
     \<lparr>score = max 0 (accumulate
        [(pinkyExtended f, 0.3), (indexCurled f, 0.2), (middleCurled f, 0.2),
         (ringCurled f, 0.15), (thumbCurl f > 0.3, 0.1),
         (indexExtended f, - 0.3), (middleExtended f, - 0.3),
         (ringExtended f, - 0.2), (pinkyCurled f, - 0.5)]),
      rules = [''pinky only ext, rest curl'']\<rparr>"
| "signRules Rat f =
     \<lparr>score = max 0 (accumulate
        [(thumbExtended f, 0.35), (indexCurled f, 0.15), (middleCurled f, 0.15),
         (ringCurled f, 0.15), (pinkyCurled f, 0.15),
         (greaterThan_js (thumbToPalm f) 0.8, 0.05),
         (indexExtended f, - 0.3), (middleExtended f, - 0.3),
         (pinkyExtended f, - 0.3), (thumbCurled f, - 0.5)]),
      rules = [''thumb up, all others curl'']\<rparr>"

text \<open>The keys in the order \<^verbatim>\<open>Object.entries(signRules)\<close> yields them.\<close>

definition signOrder :: "sign list" where
  "signOrder = [Tiger, Snake, Ram, Monkey, Boar, Horse, Bird, Dog, Dragon, Ox, Hare, Rat]"

section \<open>Classification (hand-signs.js, lines 395-431)\<close>

text \<open>
  The result of \<^verbatim>\<open>classify\<close>. \<^verbatim>\<open>allScores\<close> is an object keyed by sign name;
  it is modelled by the list of its entries in insertion order.
\<close>

record classification = detection +
  allScores :: "(sign \<times> ruleResult) list"
  features :: features
  threshold :: real

text \<open>
  The \<^verbatim>\<open>for\<close> loop of lines 403-410 over the remaining keys, with the loop variables
  \<^verbatim>\<open>results\<close>, \<^verbatim>\<open>bestSign\<close> and \<^verbatim>\<open>bestScore\<close>.
\<close>

fun classifyLoop ::
  "features \<Rightarrow> sign list \<Rightarrow> (sign \<times> ruleResult) list \<times> sign option \<times> real
     \<Rightarrow> (sign \<times> ruleResult) list \<times> sign option \<times> real" where
  "classifyLoop f [] acc = acc"
| "classifyLoop f (sg # rest) (results, bestSign, bestScore) =
     (let r = signRules sg f;
          results1 = results @ [(sg, \<lparr>score = min 1 (score r), rules = rules r\<rparr>)]
      in if score r > bestScore
         then classifyLoop f rest (results1, Some sg, score r)
         else classifyLoop f rest (results1, bestSign, bestScore))"

text \<open>
  \<^verbatim>\<open>classify\<close>. The argument is \<open>None\<close> for a falsy \<^verbatim>\<open>landmarks\<close>; the result
  is \<open>None\<close> for \<^verbatim>\<open>null\<close>.
\<close>

definition classify :: "landmark list option \<Rightarrow> classification option" where
  "classify landmarks =
     (case landmarks of
        None \<Rightarrow> None
      | Some lms \<Rightarrow>
          if length lms < 21 then None
          else
            (let f = getHandFeatures lms;
                 (results, bestSign, bestScore) = classifyLoop f signOrder ([], None, 0);
                 minConfidence = double 0.45
             in if bestScore < minConfidence
                then Some \<lparr>sign = None, confidence = 0, allScores = results,
                           features = f, threshold = minConfidence\<rparr>
                else Some \<lparr>sign = bestSign, confidence = min 1 bestScore,
                           allScores = results, features = f,
                           threshold = minConfidence\<rparr>))"


section \<open>Example hands\<close>

text \<open>
  A hand pointing down the image, every finger along a vertical line: thumb and index
  straight, middle and ring partly folded, pinky folded, index and middle tips at the
  same height 0.05 apart. \<open>knuckle\<close> is the base of the middle finger (landmark 9).
\<close>

definition handWithKnuckle :: "landmark \<Rightarrow> landmark list" where
  "handWithKnuckle knuckle =
     [Landmark 0.5 0.2 (Some 0),
      Landmark 0.44 0.3 (Some 0), Landmark 0.40 0.3 (Some 0),
      Landmark 0.36 0.3 (Some 0), Landmark 0.32 0.3 (Some 0),
      Landmark 0.45 0.5 (Some 0), Landmark 0.45 0.58 (Some 0),
      Landmark 0.45 0.64 (Some 0), Landmark 0.45 0.68 (Some 0),
      knuckle, Landmark 0.5 0.6 (Some 0),
      Landmark 0.5 0.7 (Some 0), Landmark 0.5 0.68 (Some 0),
      Landmark 0.55 0.5 (Some 0), Landmark 0.55 0.6 (Some 0),
      Landmark 0.55 0.67 (Some 0), Landmark 0.55 0.64 (Some 0),
      Landmark 0.6 0.48 (Some 0), Landmark 0.6 0.56 (Some 0),
      Landmark 0.6 0.62 (Some 0), Landmark 0.6 0.56 (Some 0)]"

definition foldedHand :: "landmark list" where
  "foldedHand = handWithKnuckle (Landmark 0.5 0.5 (Some 0))"

text \<open>The same hand with the base of the middle finger on the wrist point.\<close>

definition wristOnKnuckle :: "landmark list" where
  "wristOnKnuckle = handWithKnuckle (Landmark 0.5 0.2 (Some 0))"



text \<open>All 21 points at the centre of the image.\<close>

definition collapsedHand :: "landmark list" where
  "collapsedHand = replicate 21 (Landmark 0.5 0.5 (Some 0))"

section \<open>Properties of the sequence matcher\<close>

lemmas catalog_defs = jutsus_def fireball_def chidori_def shadowclone_def waterdragon_def
lemmas const_defs = MIN_CONFIDENCE_def SIGN_HOLD_FRAMES_def SEQUENCE_TIMEOUT_MS_def

subsection \<open>Matching against the catalog\<close>

lemma prefix_iff_nth:
  "prefix xs ys \<longleftrightarrow> length xs \<le> length ys \<and> (\<forall>i<length xs. xs ! i = ys ! i)"
proof
  assume "prefix xs ys"
  then obtain zs where "ys = xs @ zs" by (auto simp: prefix_def)
  then show "length xs \<le> length ys \<and> (\<forall>i<length xs. xs ! i = ys ! i)"
    by (simp add: nth_append)
next
  assume h: "length xs \<le> length ys \<and> (\<forall>i<length xs. xs ! i = ys ! i)"
  then have "take (length xs) ys = xs"
    by (intro nth_equalityI) auto
  then show "prefix xs ys"
    by (metis take_is_prefix)
qed

lemma prefixMatches_iff: "prefixMatches cs j \<longleftrightarrow> prefix cs (signs j)"
  unfolding prefix_iff_nth prefixMatches_def list_all_iff by auto

lemma isCompleted_iff: "isCompleted cs j \<longleftrightarrow> cs = signs j"
  unfolding isCompleted_def list_all_iff
  by (auto intro: nth_equalityI)

lemma completed_matches:
  assumes "findCompletedJutsu cs = Some j"
  shows "findMatchingJutsus cs \<noteq> []"
proof -
  from assms have "j \<in> set jutsus" and "isCompleted cs j"
    by (auto simp: findCompletedJutsu_def find_Some_iff)
  then have "j \<in> set (filter (prefixMatches cs) jutsus)"
    by (simp add: prefixMatches_iff isCompleted_iff)
  then show ?thesis
    by (auto simp: findMatchingJutsus_def filter_empty_conv)
qed

lemma matching_prefix:
  assumes "findMatchingJutsus cs \<noteq> []"
  shows "\<exists>j \<in> set jutsus. prefix cs (signs j)"
proof -
  from assms obtain j where "j \<in> set (filter (prefixMatches cs) jutsus)"
    by (auto simp: findMatchingJutsus_def filter_empty_conv)
  then show ?thesis
    by (auto simp: prefixMatches_iff)
qed

lemma not_completed:
  assumes "findCompletedJutsu cs = None" and "j \<in> set jutsus"
  shows "cs \<noteq> signs j"
  using assms by (auto simp: findCompletedJutsu_def find_None_iff isCompleted_iff)

subsection \<open>One frame of a held sign\<close>



lemma eighth_frame:
  assumes "lastDetectedSign s = Some sg" "qualifying sg c" "\<not> timedOut now s"
    and "signHoldCount s = 7"
  shows "processSign now c s =
     (if currentSequence s \<noteq> [] \<and> last (currentSequence s) = sg
      then s\<lparr>signHoldCount := 8\<rparr>
      else registerSign now sg (s\<lparr>signHoldCount := 8\<rparr>))"
  using assms
  by (auto simp: processSign_def qualifying_def checkTimeout_def Let_def const_defs
           split: option.splits)

lemma timedOut_hold [simp]:
  "timedOut t (s\<lparr>signHoldCount := n\<rparr>) = timedOut t s"
  "timedOut t (s\<lparr>lastDetectedSign := x\<rparr>) = timedOut t s"
  by (simp_all add: timedOut_def)



subsection \<open>The example runs\<close>


subsection \<open>Completion\<close>





subsection \<open>Hold debouncing\<close>





subsection \<open>Timeout\<close>

text \<open>
  C6. When a classification is processed while \<open>currentSequence\<close> is non-empty and more
  than 5000 ms have passed since \<open>lastSignTime\<close>, the matcher first performs
  \<open>resetSequence\<close> with reason \<open>timeout\<close> and then processes the sample from the reset
  state, whatever the sample's sign and confidence. The reset leaves \<open>currentSequence\<close>
  empty, the hold counter 0 and the last-seen sign cleared, and calls the reset handler
  (when one is installed); the sample itself then registers nothing.
\<close>

theorem timeout_resets_before_sample:
  assumes "currentSequence s \<noteq> []" and "now - lastSignTime s > SEQUENCE_TIMEOUT_MS"
  shows "processSign now (Some c) s = processSign now (Some c) (resetSequence ''timeout'' s)
       \<and> currentSequence (resetSequence ''timeout'' s) = []
       \<and> signHoldCount (resetSequence ''timeout'' s) = 0
       \<and> lastDetectedSign (resetSequence ''timeout'' s) = None
       \<and> events (resetSequence ''timeout'' s) =
           events s @ (if onSequenceReset s then [SequenceReset ''timeout''] else [])
       \<and> currentSequence (processSign now (Some c) s) = []
       \<and> events (processSign now (Some c) s) = events (resetSequence ''timeout'' s)"
  using assms
  by (simp add: processSign_def checkTimeout_def timedOut_def resetSequence_def Let_def
        const_defs)

text \<open>Ram recorded at 231 ms; a Snake frame arrives at 6000 ms.\<close>

theorem timeout_resets_before_sample_witness:
  "processSign 6000 (Some (frame Snake (9 / 10))) ramRecorded =
     processSign 6000 (Some (frame Snake (9 / 10))) (resetSequence ''timeout'' ramRecorded)
   \<and> currentSequence (resetSequence ''timeout'' ramRecorded) = []
   \<and> signHoldCount (resetSequence ''timeout'' ramRecorded) = 0
   \<and> lastDetectedSign (resetSequence ''timeout'' ramRecorded) = None
   \<and> events (resetSequence ''timeout'' ramRecorded) =
       events ramRecorded @
         (if onSequenceReset ramRecorded then [SequenceReset ''timeout''] else [])
   \<and> currentSequence (processSign 6000 (Some (frame Snake (9 / 10))) ramRecorded) = []
   \<and> events (processSign 6000 (Some (frame Snake (9 / 10))) ramRecorded) =
       events (resetSequence ''timeout'' ramRecorded)"
proof -
  have h1: "currentSequence ramRecorded \<noteq> []"
    by code_simp
  have h2: "6000 - lastSignTime ramRecorded > SEQUENCE_TIMEOUT_MS"
    by code_simp
  show ?thesis
    by (rule timeout_resets_before_sample [OF h1 h2])
qed

subsection \<open>The deferred no-match check\<close>

text \<open>
  C7. When a sample registers a sign, a check is scheduled 1000 ms after the sample's
  clock value exactly if the matching set of the extended sequence is empty. When a
  scheduled check runs in a state \<open>u\<close>, it reads \<open>matchingJutsus\<close> of \<open>u\<close>, the state at
  that moment: if the matching set is non-empty the check changes nothing, and if it is
  empty the check performs \<open>resetSequence\<close> with reason \<open>no-match\<close>.
\<close>

theorem deferred_check_reads_live_matching_set:
  assumes q: "qualifying sg c"
    and hold: "lastDetectedSign s = Some sg" "signHoldCount s = 7"
    and fresh: "\<not> timedOut now s"
    and norepeat: "currentSequence s = [] \<or> last (currentSequence s) \<noteq> sg"
    and pending: "timers u = due # rest"
  shows "timers (processSign now c s) =
           timers s @ (if findMatchingJutsus (currentSequence s @ [sg]) = []
                       then [now + 1000] else [])
       \<and> (matchingJutsus u \<noteq> [] \<longrightarrow> fireTimer u = u\<lparr>timers := rest\<rparr>)
       \<and> (matchingJutsus u = [] \<longrightarrow>
            fireTimer u = resetSequence ''no-match'' (u\<lparr>timers := rest\<rparr>)
          \<and> currentSequence (fireTimer u) = []
          \<and> lastDetectedSign (fireTimer u) = None
          \<and> signHoldCount (fireTimer u) = 0
          \<and> events (fireTimer u) =
              events u @ (if currentSequence u \<noteq> [] \<and> onSequenceReset u
                          then [SequenceReset ''no-match''] else []))"
proof -
  have p: "processSign now c s = registerSign now sg (s\<lparr>signHoldCount := 8\<rparr>)"
    using eighth_frame [OF hold(1) q fresh hold(2)] norepeat by auto
  have sched: "timers (registerSign now sg (s\<lparr>signHoldCount := 8\<rparr>)) =
           timers s @ (if findMatchingJutsus (currentSequence s @ [sg]) = []
                       then [now + 1000] else [])"
  proof (cases "findCompletedJutsu (currentSequence s @ [sg])")
    case None
    then show ?thesis
      by (simp add: registerSign_def Let_def)
  next
    case (Some j)
    then have "findMatchingJutsus (currentSequence s @ [sg]) \<noteq> []"
      by (rule completed_matches)
    then show ?thesis
      using Some by (simp add: registerSign_def resetSequence_def Let_def)
  qed
  show ?thesis
    using pending sched
    by (simp add: p fireTimer_def noMatchCheck_def resetSequence_def Let_def)
qed

text \<open>
  The eighth Tiger frame matches nothing and schedules the check for 1231 ms. Run at
  once, the check resets. Run after a manual reset and a registered Ox, whose matching set
  is non-empty, the same check changes nothing.
\<close>

theorem deferred_check_reads_live_matching_set_witness:
  "timers (processSign 231 (Some (frame Tiger (9 / 10))) tigerSeven) = [231 + 1000]
   \<and> matchingJutsus tigerEight = []
   \<and> fireTimer tigerEight = resetSequence ''no-match'' (tigerEight\<lparr>timers := []\<rparr>)
   \<and> currentSequence (fireTimer tigerEight) = []
   \<and> events (fireTimer tigerEight) = events tigerEight @ [SequenceReset ''no-match'']
   \<and> matchingJutsus oxAfterTiger \<noteq> []
   \<and> fireTimer oxAfterTiger = oxAfterTiger\<lparr>timers := []\<rparr>"
proof -
  have q: "qualifying Tiger (Some (frame Tiger (9 / 10)))"
    by (simp add: qualifying_def frame_def const_defs)
  have h: "lastDetectedSign tigerSeven = Some Tiger" "signHoldCount tigerSeven = 7"
    "\<not> timedOut 231 tigerSeven"
    "currentSequence tigerSeven = [] \<or> last (currentSequence tigerSeven) \<noteq> Tiger"
    by code_simp+
  have t1: "timers tigerEight = 1231 # []" and t2: "timers oxAfterTiger = 1231 # []"
    by code_simp+
  have m1: "matchingJutsus tigerEight = []" and m2: "matchingJutsus oxAfterTiger \<noteq> []"
    and e: "findMatchingJutsus (currentSequence tigerSeven @ [Tiger]) = []"
    and ts: "timers tigerSeven = []"
    and cs: "currentSequence tigerEight \<noteq> []" "onSequenceReset tigerEight"
    by code_simp+
  note A = deferred_check_reads_live_matching_set [OF q h t1]
  note B = deferred_check_reads_live_matching_set [OF q h t2]
  from A have "timers (processSign 231 (Some (frame Tiger (9 / 10))) tigerSeven) =
           timers tigerSeven @ (if findMatchingJutsus (currentSequence tigerSeven @ [Tiger]) = []
                       then [231 + 1000] else [])"
    by (rule conjunct1)
  then have a1: "timers (processSign 231 (Some (frame Tiger (9 / 10))) tigerSeven) = [231 + 1000]"
    by (simp only: e ts if_True append_Nil simp_thms)
  from A m1 have f1: "fireTimer tigerEight = resetSequence ''no-match'' (tigerEight\<lparr>timers := []\<rparr>)"
    by blast
  from A m1 have f2: "currentSequence (fireTimer tigerEight) = []"
    by blast
  from A m1 have "events (fireTimer tigerEight) =
      events tigerEight @ (if currentSequence tigerEight \<noteq> [] \<and> onSequenceReset tigerEight
                           then [SequenceReset ''no-match''] else [])"
    by blast
  then have f3: "events (fireTimer tigerEight) = events tigerEight @ [SequenceReset ''no-match'']"
    using cs by simp
  from B m2 have b: "fireTimer oxAfterTiger = oxAfterTiger\<lparr>timers := []\<rparr>"
    by blast
  show ?thesis
    using a1 m1 f1 f2 f3 m2 b by blast
qed

subsection \<open>What the recorded sequence can be\<close>

lemma consistent_reset: "consistent (resetSequence reason s)"
  by (simp add: consistent_def resetSequence_def Let_def)

lemma consistent_register: "consistent (registerSign now sg s)"
  by (auto simp: consistent_def registerSign_def resetSequence_def Let_def split: option.splits)

lemma consistent_process:
  assumes i: "consistent s"
  shows "consistent (processSign now c s)"
proof (cases c)
  case None
  then show ?thesis using i by (simp add: processSign_def)
next
  case (Some d)
  have i1: "consistent (checkTimeout now s)"
    using i by (simp add: checkTimeout_def consistent_reset)
  have upd: "\<And>u n x. consistent u \<Longrightarrow>
      consistent (u\<lparr>signHoldCount := n\<rparr>)
      \<and> consistent (u\<lparr>lastDetectedSign := x, signHoldCount := n\<rparr>)
      \<and> consistent (u\<lparr>signHoldCount := n, lastDetectedSign := x\<rparr>)"
    by (simp add: consistent_def)
  show ?thesis
    using i1 upd [OF i1] Some
    by (simp add: processSign_def Let_def consistent_register)
qed

lemma consistent_timer: "consistent s \<Longrightarrow> consistent (fireTimer s)"
  by (auto simp: fireTimer_def noMatchCheck_def consistent_reset split: list.splits)
     (auto simp: consistent_def)

lemma reachable_consistent: "reachable s \<Longrightarrow> consistent s"
proof (induction rule: reachable.induct)
  case reach_initial
  show ?case by (simp add: consistent_def initial_def)
next
  case (reach_callbacks s a b c)
  then show ?case by (simp add: consistent_def setCallbacks_def)
next
  case (reach_sample s now cl)
  then show ?case by (simp add: consistent_process)
next
  case (reach_reset s reason)
  show ?case by (rule consistent_reset)
next
  case (reach_timer s)
  then show ?case by (simp add: consistent_timer)
qed

lemma reachable_started: "reachable started"
  unfolding started_def by (intro reach_callbacks reach_initial)

lemma reachable_feed:
  fixes fs :: "(int \<times> detection option) list"
  shows "reachable s \<Longrightarrow> reachable (feed fs s)"
proof (induction fs arbitrary: s)
  case Nil
  then show ?case by simp
next
  case (Cons f fs)
  obtain t c where f: "f = (t, c)" by (cases f)
  have "reachable (processSign t c s)"
    using Cons.prems by (rule reach_sample)
  then have "reachable (feed fs (processSign t c s))"
    by (rule Cons.IH)
  then show ?case
    by (simp add: f)
qed

text \<open>
  C3 (amended). In every reachable state of the matcher, \<open>currentSequence\<close> is empty, or a
  strict prefix of the required signs of at least one catalog jutsu, or it matches no
  catalog entry while \<open>matchingJutsus\<close> is empty and a deferred no-match check is still
  pending.
\<close>

theorem recorded_signs_prefix_or_check_pending:
  assumes "reachable s"
  shows "currentSequence s = [] \<or> strictCatalogPrefix (currentSequence s)
       \<or> (matchingJutsus s = [] \<and> timers s \<noteq> [])"
proof -
  have i: "consistent s" using assms by (rule reachable_consistent)
  show ?thesis
  proof (cases "currentSequence s = [] \<or> (matchingJutsus s = [] \<and> timers s \<noteq> [])")
    case True
    then show ?thesis by blast
  next
    case False
    with i have m: "findMatchingJutsus (currentSequence s) \<noteq> []"
      and n: "findCompletedJutsu (currentSequence s) = None"
      by (auto simp: consistent_def)
    from matching_prefix [OF m] obtain j
      where j: "j \<in> set jutsus" "prefix (currentSequence s) (signs j)"
      by blast
    with not_completed [OF n j(1)] have "strict_prefix (currentSequence s) (signs j)"
      by (simp add: strict_prefix_def)
    with j show ?thesis
      by (auto simp: strictCatalogPrefix_def)
  qed
qed

text \<open>With Ox recorded the sequence is a strict prefix of chidori and of waterdragon.\<close>

theorem recorded_signs_prefix_or_check_pending_witness:
  "reachable oxRecorded \<and> currentSequence oxRecorded = [Ox]
   \<and> strictCatalogPrefix (currentSequence oxRecorded)"
proof -
  have r: "reachable oxRecorded"
    unfolding oxRecorded_def by (intro reachable_feed reachable_started)
  have c: "currentSequence oxRecorded = [Ox]" and m: "matchingJutsus oxRecorded \<noteq> []"
    by code_simp+
  show ?thesis
    using recorded_signs_prefix_or_check_pending [OF r] r c m by simp
qed

text \<open>
  C3 as stated fails: eight Tiger frames from the start leave \<open>[Tiger]\<close> recorded, and no
  catalog entry begins with Tiger.
\<close>

theorem tiger_recorded_without_catalog_prefix:
  "reachable tigerEight \<and> currentSequence tigerEight = [Tiger]
   \<and> \<not> strictCatalogPrefix (currentSequence tigerEight)"
proof -
  have r: "reachable tigerEight"
    unfolding tigerEight_def by (intro reachable_feed reachable_started)
  have c: "currentSequence tigerEight = [Tiger]"
    by code_simp
  have n: "\<not> strictCatalogPrefix [Tiger]"
    by (simp add: strictCatalogPrefix_def catalog_defs)
  show ?thesis
    using r c n by simp
qed

section \<open>Properties of the classifier\<close>

lemmas dbl = double_def binade_def nearestEven_def Let_def power_int_def compute_bitlen power_one_over

lemmas feat_defs = getHandFeatures_def Let_def

subsection \<open>The rounding function\<close>

text \<open>
  \<open>double x\<close> is a multiple \<open>m * 2\<^sup>e\<^sup>-\<^sup>5\<^sup>2\<close> of the unit in the last place of
  the binade \<open>e\<close> of \<open>x\<close>, with a significand of magnitude at most \<open>2\<^sup>5\<^sup>3\<close>, and lies
  within half a unit of \<open>x\<close>; by \<open>nearestEven\<close>, a tie goes to the even significand.
\<close>

lemma binade_bounds:
  assumes "0 < x"
  shows "2 powi binade x \<le> x \<and> x < 2 powi (binade x + 1)"
proof (cases "1 \<le> x")
  case True
  define n where "n = \<lfloor>x\<rfloor>"
  have n: "1 \<le> n" "of_int n \<le> x" "x < of_int n + 1"
    using True by (auto simp: n_def)
  then have pos: "0 < n" by simp
  have b: "2 ^ nat (bitlen n - 1) \<le> n" "n < 2 ^ nat (bitlen n)"
    using bitlen_bounds [OF pos] by auto
  have b1: "1 \<le> bitlen n"
    using pos by (simp add: bitlen_alt_def)
  have e: "binade x = bitlen n - 1"
    using True by (simp add: binade_def n_def)
  have lo: "(2::real) powi (bitlen n - 1) \<le> x"
  proof -
    have "(2::real) powi (bitlen n - 1) = 2 ^ nat (bitlen n - 1)"
      using b1 by (simp add: power_int_def)
    also have "\<dots> \<le> of_int n" using b(1) by simp
    finally show ?thesis using n(2) by linarith
  qed
  have hi: "x < (2::real) powi (bitlen n - 1 + 1)"
  proof -
    have "n + 1 \<le> 2 ^ nat (bitlen n)" using b(2) by simp
    then have "(of_int (n + 1) :: real) \<le> 2 ^ nat (bitlen n)"
      by (simp only: of_int_le_numeral_power_cancel_iff)
    then have "of_int n + 1 \<le> (2::real) ^ nat (bitlen n)" by simp
    moreover have "(2::real) powi (bitlen n - 1 + 1) = 2 ^ nat (bitlen n)"
      using b1 by (simp add: power_int_def)
    ultimately show ?thesis using n(3) by linarith
  qed
  show ?thesis using lo hi e by simp
next
  case False
  define z where "z = 1 / x"
  define m where "m = \<lceil>z\<rceil> - 1"
  have z1: "1 < z" using False assms by (simp add: z_def)
  have m: "1 \<le> m" "of_int m < z" "z \<le> of_int m + 1"
    using z1 by (auto simp: m_def) linarith+
  then have pos: "0 < m" by simp
  have b: "2 ^ nat (bitlen m - 1) \<le> m" "m < 2 ^ nat (bitlen m)"
    using bitlen_bounds [OF pos] by auto
  have b1: "1 \<le> bitlen m"
    using pos by (simp add: bitlen_alt_def)
  have e: "binade x = - bitlen m"
    using False by (simp add: binade_def m_def z_def)
  have zhi: "z \<le> 2 ^ nat (bitlen m)"
  proof -
    have "m + 1 \<le> 2 ^ nat (bitlen m)" using b(2) by simp
    then have "(of_int (m + 1) :: real) \<le> 2 ^ nat (bitlen m)"
      by (simp only: of_int_le_numeral_power_cancel_iff)
    then show ?thesis using m(3) by simp
  qed
  have zlo: "2 ^ nat (bitlen m - 1) < z"
  proof -
    have "(2::real) ^ nat (bitlen m - 1) \<le> of_int m"
      using b(1) by simp
    then show ?thesis using m(2) by linarith
  qed
  have x: "x = 1 / z" using assms by (simp add: z_def)
  have lo: "(2::real) powi (- bitlen m) \<le> x"
  proof -
    have "(2::real) powi (- bitlen m) = 1 / 2 ^ nat (bitlen m)"
      using b1 by (simp add: power_int_def field_simps)
    also have "\<dots> \<le> 1 / z"
      using zhi z1 by (simp add: frac_le)
    finally show ?thesis using x by simp
  qed
  have hi: "x < (2::real) powi (- bitlen m + 1)"
  proof -
    have "(2::real) powi (- bitlen m + 1) = 1 / 2 ^ nat (bitlen m - 1)"
      using b1 by (simp add: power_int_def field_simps nat_diff_distrib)
    moreover have "1 / z < 1 / 2 ^ nat (bitlen m - 1)"
      using zlo by (simp add: frac_less2)
    ultimately show ?thesis using x by simp
  qed
  show ?thesis using lo hi e by simp
qed

lemma nearestEven_error: "\<bar>of_int (nearestEven y) - y\<bar> \<le> 1 / 2"
  unfolding nearestEven_def Let_def
  by (auto simp: abs_if) linarith+

lemma nearestEven_bounds: "\<lfloor>y\<rfloor> \<le> nearestEven y \<and> nearestEven y \<le> \<lceil>y\<rceil>"
  unfolding nearestEven_def Let_def
  by (auto simp: ceiling_altdef)

lemma double_nearest:
  assumes "x \<noteq> 0"
  shows "\<exists>m. double x = of_int m * 2 powi (binade \<bar>x\<bar> - 52) \<and> \<bar>m\<bar> \<le> 2 ^ 53
           \<and> \<bar>double x - x\<bar> \<le> 2 powi (binade \<bar>x\<bar> - 52) / 2"
proof -
  define e where "e = binade \<bar>x\<bar>"
  define u :: real where "u = 2 powi (e - 52)"
  define m where "m = nearestEven (x / u)"
  have u: "0 < u" by (simp add: u_def)
  have d: "double x = of_int m * u"
    using assms by (simp add: double_def Let_def m_def u_def e_def)
  have bb: "2 powi e \<le> \<bar>x\<bar>" "\<bar>x\<bar> < 2 powi (e + 1)"
    using binade_bounds [of "\<bar>x\<bar>"] assms by (simp_all add: e_def)
  have "\<bar>x / u\<bar> = \<bar>x\<bar> / u" using u by simp
  also have "\<dots> < 2 powi (e + 1) / u"
    using bb(2) u by (simp add: divide_strict_right_mono)
  also have "\<dots> = 2 ^ 53"
    by (simp add: u_def power_int_diff power_int_add)
  finally have q: "\<bar>x / u\<bar> < 2 ^ 53" .
  have q2: "- (2 ^ 53) < x / u" "x / u < 2 ^ 53"
    using q unfolding abs_less_iff by linarith+
  have fl: "- (2 ^ 53) \<le> \<lfloor>x / u\<rfloor>" and ce: "\<lceil>x / u\<rceil> \<le> 2 ^ 53"
    using q2 by (simp_all add: le_floor_iff ceiling_le_iff)
  have mm: "\<bar>m\<bar> \<le> 2 ^ 53"
    using fl ce nearestEven_bounds [of "x / u"] unfolding m_def by linarith
  have "double x - x = (of_int m - x / u) * u"
    using u by (simp add: d field_simps)
  then have "\<bar>double x - x\<bar> = \<bar>of_int m - x / u\<bar> * u"
    using u by (simp add: abs_mult)
  also have "\<dots> \<le> 1 / 2 * u"
    using nearestEven_error [of "x / u"] u by (simp add: m_def mult_right_mono)
  finally have err: "\<bar>double x - x\<bar> \<le> u / 2" by simp
  show ?thesis
    using d mm err by (auto simp: u_def e_def)
qed

subsection \<open>What the features are made of\<close>


lemma features_agree:
  assumes "\<forall>i<21. a ! i = b ! i"
  shows "getHandFeatures a = (getHandFeatures b)\<lparr>lm := a\<rparr>"
proof -
  have e: "a ! 0 = b ! 0" "a ! Suc 0 = b ! Suc 0" "a ! 1 = b ! 1" "a ! 2 = b ! 2" "a ! 3 = b ! 3" "a ! 4 = b ! 4"
    "a ! 5 = b ! 5" "a ! 6 = b ! 6" "a ! 7 = b ! 7" "a ! 8 = b ! 8" "a ! 9 = b ! 9"
    "a ! 10 = b ! 10" "a ! 11 = b ! 11" "a ! 12 = b ! 12" "a ! 13 = b ! 13" "a ! 14 = b ! 14"
    "a ! 15 = b ! 15" "a ! 16 = b ! 16" "a ! 17 = b ! 17" "a ! 18 = b ! 18" "a ! 19 = b ! 19"
    "a ! 20 = b ! 20"
    using assms by simp_all
  show ?thesis
    by (simp add: feat_defs getPalmSize_def getThumbCurl_def getFingerCurl_def
          getFingerAngle_def e)
qed

lemma signRules_lm: "signRules sg (f\<lparr>lm := x\<rparr>) = signRules sg f"
  by (cases sg) simp_all

lemma classifyLoop_lm: "classifyLoop (f\<lparr>lm := x\<rparr>) sgs acc = classifyLoop f sgs acc"
proof (induction sgs arbitrary: acc)
  case Nil
  then show ?case by simp
next
  case (Cons sg sgs)
  obtain res b bs where acc: "acc = (res, b, bs)" by (cases acc)
  show ?case
    by (simp add: acc signRules_lm Cons.IH Let_def)
qed

lemma score_nonneg: "0 \<le> score (signRules sg f)"
  by (cases sg) simp_all

lemma threshold_pos: "0 < double 0.45"
  by (simp add: dbl)

lemma classifyLoop_inv:
  assumes "classifyLoop f sgs (res, b, bs) = (res', b', bs')"
    and "b = None \<longrightarrow> bs = 0" and "0 \<le> bs"
    and "\<forall>(sg, e) \<in> set res. 0 \<le> score e \<and> score e \<le> 1"
  shows "map fst res' = map fst res @ sgs \<and> (b' = None \<longrightarrow> bs' = 0) \<and> 0 \<le> bs'
       \<and> (\<forall>(sg, e) \<in> set res'. 0 \<le> score e \<and> score e \<le> 1)"
  using assms
proof (induction sgs arbitrary: res b bs)
  case Nil
  then show ?case by simp
next
  case (Cons sg sgs)
  let ?r = "signRules sg f"
  let ?res1 = "res @ [(sg, \<lparr>score = min 1 (score ?r), rules = rules ?r\<rparr>)]"
  have nn: "0 \<le> score ?r" by (rule score_nonneg)
  have res1: "\<forall>(sg, e) \<in> set ?res1. 0 \<le> score e \<and> score e \<le> 1"
    using Cons.prems(4) nn by auto
  show ?case
  proof (cases "score ?r > bs")
    case True
    then have "classifyLoop f sgs (?res1, Some sg, score ?r) = (res', b', bs')"
      using Cons.prems(1) by (simp add: Let_def)
    from Cons.IH [OF this _ nn res1] show ?thesis by simp
  next
    case False
    then have "classifyLoop f sgs (?res1, b, bs) = (res', b', bs')"
      using Cons.prems(1) by (simp add: Let_def)
    from Cons.IH [OF this Cons.prems(2) Cons.prems(3) res1] show ?thesis by simp
  qed
qed

lemma dist_same_y [simp]: "dist_js (Landmark x1 y z) (Landmark x2 y z) = \<bar>x1 - x2\<bar>"
  by (simp add: dist_js_def zOr0_def Let_def)

lemma dist_same_x [simp]: "dist_js (Landmark x y1 z) (Landmark x y2 z) = \<bar>y1 - y2\<bar>"
  by (simp add: dist_js_def zOr0_def Let_def)

subsection \<open>The landmark array\<close>

text \<open>
  C10. \<open>classify\<close> accepts landmark arrays of more than 21 points, and its decision
  depends only on the points 0 to 20: for two arrays of at least 21 points that agree at
  the indices 0 to 20, it returns results with the same sign, the same confidence and the
  same table of scores.
\<close>

theorem classify_reads_first_21_points:
  assumes a: "21 \<le> length a" and b: "21 \<le> length b" and e: "\<forall>i<21. a ! i = b ! i"
  shows "\<exists>ra rb. classify (Some a) = Some ra \<and> classify (Some b) = Some rb
           \<and> sign ra = sign rb \<and> confidence ra = confidence rb
           \<and> allScores ra = allScores rb"
proof -
  have f: "getHandFeatures a = (getHandFeatures b)\<lparr>lm := a\<rparr>"
    using e by (rule features_agree)
  have l: "classifyLoop (getHandFeatures a) signOrder ([], None, 0) =
           classifyLoop (getHandFeatures b) signOrder ([], None, 0)"
    unfolding f by (rule classifyLoop_lm)
  obtain res bst bs where r: "classifyLoop (getHandFeatures b) signOrder ([], None, 0) = (res, bst, bs)"
    by (cases "classifyLoop (getHandFeatures b) signOrder ([], None, 0)")
  show ?thesis
    using a b by (simp add: classify_def l r Let_def)
qed

text \<open>The folded hand, and the same array with a 22nd point appended.\<close>

theorem classify_reads_first_21_points_witness:
  "\<exists>ra rb. classify (Some foldedHand) = Some ra
       \<and> classify (Some (foldedHand @ [Landmark 0 0 None])) = Some rb
       \<and> sign ra = sign rb \<and> confidence ra = confidence rb
       \<and> allScores ra = allScores rb"
proof -
  have l: "length foldedHand = 21"
    by (simp add: foldedHand_def handWithKnuckle_def)
  have h1: "21 \<le> length foldedHand" and h2: "21 \<le> length (foldedHand @ [Landmark 0 0 None])"
    using l by simp_all
  have h3: "\<forall>i<21. foldedHand ! i = (foldedHand @ [Landmark 0 0 None]) ! i"
    using l by (simp add: nth_append)
  show ?thesis
    by (rule classify_reads_first_21_points [OF h1 h2 h3])
qed

text \<open>
  C5. For every landmark array of at least 21 points, \<open>classify\<close> returns a result that
  has either no sign and confidence 0, or one of the twelve signs and a confidence in
  \<open>(0, 1]\<close>; in both cases the table of scores has one entry for each of the twelve
  signs, in the order of \<open>signOrder\<close>, and every score in it is at least 0.
\<close>

theorem classify_result_shape:
  assumes "21 \<le> length lms"
  shows "\<exists>r. classify (Some lms) = Some r
           \<and> ((sign r = None \<and> confidence r = 0)
              \<or> (\<exists>sg \<in> set signOrder. sign r = Some sg \<and> 0 < confidence r \<and> confidence r \<le> 1))
           \<and> map fst (allScores r) = signOrder
           \<and> (\<forall>(sg, e) \<in> set (allScores r). 0 \<le> score e)"
proof -
  let ?f = "getHandFeatures lms"
  obtain res bst bs where r: "classifyLoop ?f signOrder ([], None, 0) = (res, bst, bs)"
    by (cases "classifyLoop ?f signOrder ([], None, 0)")
  have i: "map fst res = signOrder \<and> (bst = None \<longrightarrow> bs = 0) \<and> 0 \<le> bs
       \<and> (\<forall>(sg, e) \<in> set res. 0 \<le> score e \<and> score e \<le> 1)"
    using classifyLoop_inv [OF r] by simp
  have all: "sg \<in> set signOrder" for sg
    by (cases sg) (simp_all add: signOrder_def)
  show ?thesis
  proof (cases "bs < double 0.45")
    case True
    then show ?thesis
      using assms i by (auto simp: classify_def r Let_def)
  next
    case False
    then have pos: "0 < bs" using threshold_pos by simp
    then obtain sg where "bst = Some sg" using i by (cases bst) auto
    then show ?thesis
      using assms i False pos all by (auto simp: classify_def r Let_def)
  qed
qed

theorem classify_result_shape_witness:
  "\<exists>r. classify (Some foldedHand) = Some r
       \<and> ((sign r = None \<and> confidence r = 0)
          \<or> (\<exists>sg \<in> set signOrder. sign r = Some sg \<and> 0 < confidence r \<and> confidence r \<le> 1))
       \<and> map fst (allScores r) = signOrder
       \<and> list_all (\<lambda>(sg, e). 0 \<le> score e) (allScores r)"
proof -
  have h: "21 \<le> length foldedHand"
    by (simp add: foldedHand_def handWithKnuckle_def)
  show ?thesis
    using classify_result_shape [OF h] by (simp add: list_all_iff)
qed

subsection \<open>Arrays that are too short\<close>

text \<open>
  C8 (amended). For every landmark array of fewer than 21 points \<open>classify\<close> returns
  \<^verbatim>\<open>null\<close>, and \<open>processSign\<close> given \<^verbatim>\<open>null\<close> returns at once (line 76): the
  whole matcher state is unchanged. The recorded sequence is kept, but no timeout check
  is made and the hold counter and the last-seen sign are not cleared, unlike for a
  low-confidence frame.
\<close>

theorem short_landmarks_frame_is_skipped:
  assumes "length lms < 21"
  shows "classify (Some lms) = None \<and> processSign now (classify (Some lms)) s = s"
  using assms by (simp add: classify_def processSign_def)

theorem short_landmarks_frame_is_skipped_witness:
  "classify (Some []) = None \<and> processSign 200 (classify (Some [])) oxFour = oxFour"
proof -
  have h: "length ([] :: landmark list) < 21"
    by simp
  show ?thesis
    by (rule short_landmarks_frame_is_skipped [OF h])
qed

text \<open>
  C8 as stated fails. With Ox held for four frames, the frame of an empty landmark array
  leaves the count at 4 and Ox as the last-seen sign, where a frame without a sign clears
  both; with Ram recorded at 231 ms, the same frame at 6000 ms leaves \<open>[Ram]\<close> recorded,
  where a frame without a sign performs the timeout reset.
\<close>

theorem null_frame_keeps_hold_and_skips_timeout:
  "signHoldCount (processSign 200 (classify (Some [])) oxFour) = 4
   \<and> lastDetectedSign (processSign 200 (classify (Some [])) oxFour) = Some Ox
   \<and> signHoldCount (processSign 200 (Some noSign) oxFour) = 0
   \<and> lastDetectedSign (processSign 200 (Some noSign) oxFour) = None
   \<and> currentSequence (processSign 6000 (classify (Some [])) ramRecorded) = [Ram]
   \<and> currentSequence (processSign 6000 (Some noSign) ramRecorded) = []"
proof -
  have n: "classify (Some []) = None"
    by (simp add: classify_def)
  have "signHoldCount (processSign 200 (None :: classification option) oxFour) = 4"
    "lastDetectedSign (processSign 200 (None :: classification option) oxFour) = Some Ox"
    "signHoldCount (processSign 200 (Some noSign) oxFour) = 0"
    "lastDetectedSign (processSign 200 (Some noSign) oxFour) = None"
    "currentSequence (processSign 6000 (None :: classification option) ramRecorded) = [Ram]"
    "currentSequence (processSign 6000 (Some noSign) ramRecorded) = []"
    by code_simp+
  then show ?thesis
    by (simp add: n)
qed

subsection \<open>A palm of size zero\<close>

text \<open>
  C9 says that every feature normalised by the palm size is computed with a small
  epsilon on the divisor, so that a palm of size zero yields no non-finite feature. The
  code does not do this: \<open>getPalmSize\<close> adds no epsilon and every ratio is a plain
  division by it (lines 111-129), unlike the divisions of \<open>getFingerCurl\<close>,
  \<open>getThumbCurl\<close> and \<open>angleBetween\<close>, which add \<^verbatim>\<open>1e-9\<close>. When the wrist coincides
  with the base of the middle finger the palm size is 0 and the index-middle spread is
  \<^verbatim>\<open>Infinity\<close>; when all points coincide it is \<^verbatim>\<open>NaN\<close>.
\<close>

theorem zero_palm_spread_not_finite:
  "palmSize (getHandFeatures wristOnKnuckle) = 0
   \<and> indexMiddleSpread (getHandFeatures wristOnKnuckle) = PosInfinity
   \<and> \<not> isFinite (indexMiddleSpread (getHandFeatures wristOnKnuckle))
   \<and> palmSize (getHandFeatures collapsedHand) = 0
   \<and> indexMiddleSpread (getHandFeatures collapsedHand) = NaN
   \<and> \<not> isFinite (indexMiddleSpread (getHandFeatures collapsedHand))"
  by (simp add: feat_defs getPalmSize_def wristOnKnuckle_def handWithKnuckle_def
        collapsedHand_def jsDivide_def)

subsection \<open>Scores of the rules for a Tiger-shaped hand\<close>















declare signRules.simps [simp del]










end
